theory Spec2Isabelle
  imports Complex_Main "HOL-Library.Multiset"
begin

section \<open>Media handles, clips and errors\<close>

text \<open>
  The program is \<^verbatim>\<open>src/mtslinker/processor.py\<close>. Times and durations are Python floats;
  they are modelled as real numbers, so the arithmetic below is exact (no rounding, no NaN,
  no infinity).

  A fragment handle is what \<^verbatim>\<open>VideoFileClip(path)\<close> or \<^verbatim>\<open>AudioFileClip(path)\<close> returns: the
  program only reads \<^verbatim>\<open>duration\<close>, \<^verbatim>\<open>w\<close> and \<^verbatim>\<open>h\<close> of it and closes it. A video
  handle also carries the soundtrack of its file, the attribute \<^verbatim>\<open>audio\<close> (\<^verbatim>\<open>None\<close> for a
  file without sound), which the library plays along with the pictures.
\<close>

record audio_file_clip =
  a_filename :: string
  a_duration :: real

record video_file_clip =
  v_filename :: string
  v_duration :: real
  v_w :: nat
  v_h :: nat
  v_audio :: "audio_file_clip option"

text \<open>
  The exceptions the program can raise: the \<^verbatim>\<open>ValueError\<close> of line 21, the three errors of
  Python's \<^verbatim>\<open>float(...)\<close> (a string that is no number, a value that is neither number nor
  string, an integer too large for a float), the \<^verbatim>\<open>TypeError\<close> of a \<^verbatim>\<open>for\<close> over a value
  that is not iterable, numpy's \<^verbatim>\<open>ValueError\<close> for a negative array dimension, the
  \<^verbatim>\<open>IndexError\<close> of an \<^verbatim>\<open>AudioArrayClip\<close> built on an array without frames, the
  \<^verbatim>\<open>AttributeError\<close> of a method the clip does not have, and a failure of the encoder.
\<close>

datatype error =
    DurationNotFound
  | FloatValueError
  | FloatTypeError
  | FloatOverflowError
  | NotIterable
  | NegativeDimensions
  | IndexError
  | AttributeError
  | WriteFailed

subsection \<open>Video clips\<close>

text \<open>
  A segment of the video timeline is a real fragment or a \<^verbatim>\<open>ColorClip(size, color, duration)\<close>.
\<close>

datatype segment =
    Fragment video_file_clip
  | ColorClip "nat \<times> nat" "nat \<times> nat \<times> nat" real

fun segment_duration :: "segment \<Rightarrow> real" where
  "segment_duration (Fragment v) = v_duration v"
| "segment_duration (ColorClip sz color d) = d"

fun is_filler :: "segment \<Rightarrow> bool" where
  "is_filler (Fragment v) = False"
| "is_filler (ColorClip sz color d) = True"

subsection \<open>Audio clips\<close>

text \<open>
  An audio source is a fragment handle or an \<^verbatim>\<open>AudioArrayClip(np.zeros((n, c)), fps)\<close>; the
  all-zero array is represented by its shape \<open>(n, c)\<close>. Such a clip lasts \<open>n / fps\<close>
  seconds (moviepy: \<^verbatim>\<open>duration = len(array) / fps\<close>).
\<close>

datatype audio_source =
    AudioFile audio_file_clip
  | AudioArrayClip "nat \<times> nat" nat

fun source_duration :: "audio_source \<Rightarrow> real" where
  "source_duration (AudioFile a) = a_duration a"
| "source_duration (AudioArrayClip shape fps) = real (fst shape) / real fps"

text \<open>\<^verbatim>\<open>clip.with_start(t)\<close>: the clip placed at \<open>t\<close> on the timeline; it ends at \<open>t + duration\<close>.\<close>

record audio_segment =
  seg_source :: audio_source
  seg_start :: real

definition with_start :: "audio_source \<Rightarrow> real \<Rightarrow> audio_segment" where
  "with_start src t = \<lparr>seg_source = src, seg_start = t\<rparr>"

definition seg_end :: "audio_segment \<Rightarrow> real" where
  "seg_end s = seg_start s + source_duration (seg_source s)"

text \<open>
  What \<^verbatim>\<open>create_audio_with_gaps\<close> returns: a bare source (the silent track of the empty case)
  or a \<^verbatim>\<open>CompositeAudioClip\<close> of placed segments, all of which play (overlaid) and whose
  duration is the largest end of its segments. The program never builds an empty composite;
  the model gives it duration 0.
\<close>

datatype audio =
    Plain audio_source
  | CompositeAudioClip "audio_segment list"

fun composite_duration :: "audio_segment list \<Rightarrow> real" where
  "composite_duration [] = 0"
| "composite_duration (s # ss) = fold max (map seg_end ss) (seg_end s)"

fun audio_duration :: "audio \<Rightarrow> real" where
  "audio_duration (Plain src) = source_duration src"
| "audio_duration (CompositeAudioClip segs) = composite_duration segs"

subsection \<open>Composed videos\<close>

text \<open>
  What the program builds from segments: a single clip, the concatenation
  \<^verbatim>\<open>concatenate_videoclips(clips, method='chain')\<close> (played in sequence, its duration the sum of
  the durations), and a video with an audio track attached by \<^verbatim>\<open>with_audio\<close> (the duration
  stays the video's).
\<close>

datatype video =
    Clip segment
  | Concatenate "segment list"
  | WithAudio video audio

fun duration :: "video \<Rightarrow> real" where
  "duration (Clip s) = segment_duration s"
| "duration (Concatenate segs) = sum_list (map segment_duration segs)"
| "duration (WithAudio v a) = duration v"

text \<open>
  The audio a clip plays. A fragment plays the soundtrack of its file, a \<^verbatim>\<open>ColorClip\<close> is
  mute. The concatenation places the soundtrack of every clip that has one at the time the
  clip starts in the sequence (\<open>chain_audio\<close>, from time \<open>t\<close>) and plays the composite
  of them, or nothing when no clip has sound. \<^verbatim>\<open>with_audio\<close> replaces whatever the clip
  played before.
\<close>

fun segment_audio :: "segment \<Rightarrow> audio_source option" where
  "segment_audio (Fragment v) = map_option AudioFile (v_audio v)"
| "segment_audio (ColorClip sz color d) = None"

fun chain_audio :: "real \<Rightarrow> segment list \<Rightarrow> audio_segment list" where
  "chain_audio t [] = []"
| "chain_audio t (s # segs) =
     (case segment_audio s of
        None \<Rightarrow> chain_audio (t + segment_duration s) segs
      | Some a \<Rightarrow> with_start a t # chain_audio (t + segment_duration s) segs)"

fun audio_of :: "video \<Rightarrow> audio option" where
  "audio_of (Clip s) = map_option Plain (segment_audio s)"
| "audio_of (Concatenate segs) =
     (if chain_audio 0 segs = [] then None else Some (CompositeAudioClip (chain_audio 0 segs)))"
| "audio_of (WithAudio v a) = Some a"

text \<open>The sources an audio track is made of.\<close>

fun audio_sources :: "audio option \<Rightarrow> audio_source list" where
  "audio_sources None = []"
| "audio_sources (Some (Plain src)) = [src]"
| "audio_sources (Some (CompositeAudioClip segs)) = map seg_source segs"

section \<open>The video timeline: \<^verbatim>\<open>create_video_with_gaps\<close>\<close>

text \<open>The state of the loop of lines 67 to 76: the list \<^verbatim>\<open>clips\<close> and \<^verbatim>\<open>current_time\<close>.\<close>

record walk_state =
  clips :: "segment list"
  current_time :: real

definition fill_gap :: "nat \<times> nat \<Rightarrow> real \<Rightarrow> walk_state \<Rightarrow> walk_state" where
  "fill_gap sz start_time st =
     (if start_time > current_time st then
        (let gap_duration = start_time - current_time st in
         if gap_duration > 0.01 then
           \<lparr>clips = clips st @ [ColorClip sz (0, 0, 0) gap_duration],
            current_time = current_time st + gap_duration\<rparr>
         else st)
      else st)"

definition walk_step :: "nat \<times> nat \<Rightarrow> walk_state \<Rightarrow> real \<times> video_file_clip \<Rightarrow> walk_state" where
  "walk_step sz st ev =
     (let st1 = fill_gap sz (fst ev) st in
      \<lparr>clips = clips st1 @ [Fragment (snd ev)],
       current_time = current_time st1 + v_duration (snd ev)\<rparr>)"

definition walk :: "nat \<times> nat \<Rightarrow> (real \<times> video_file_clip) list \<Rightarrow> walk_state" where
  "walk sz video_clips_sorted =
     foldl (walk_step sz) \<lparr>clips = [], current_time = 0\<rparr> video_clips_sorted"

definition trailing_filler :: "nat \<times> nat \<Rightarrow> real \<Rightarrow> walk_state \<Rightarrow> segment list" where
  "trailing_filler sz total_duration st =
     (if current_time st < total_duration then
        (let remaining_duration = total_duration - current_time st in
         if remaining_duration > 0.01 then
           clips st @ [ColorClip sz (0, 0, 0) remaining_duration]
         else clips st)
      else clips st)"

text \<open>
  Python's \<^verbatim>\<open>sorted(..., key=lambda x: x[0])\<close> is stable, as \<^const>\<open>sort_key\<close> is. In the
  second branch the sorted list is not empty, so its head exists.
\<close>

definition create_video_with_gaps :: "real \<Rightarrow> (real \<times> video_file_clip) list \<Rightarrow> video" where
  "create_video_with_gaps total_duration video_clips =
     (if video_clips = [] then Clip (ColorClip (1920, 1080) (0, 0, 0) total_duration)
      else
        (let video_clips_sorted = sort_key fst video_clips;
             width = v_w (snd (hd video_clips_sorted));
             height = v_h (snd (hd video_clips_sorted));
             st = walk (width, height) video_clips_sorted
         in Concatenate (trailing_filler (width, height) total_duration st)))"

section \<open>The audio track: \<^verbatim>\<open>create_audio_with_gaps\<close>\<close>

text \<open>Python's \<^verbatim>\<open>int(x)\<close> on a float truncates towards zero.\<close>

definition py_int :: "real \<Rightarrow> int" where
  "py_int x = (if x \<ge> 0 then \<lfloor>x\<rfloor> else \<lceil>x\<rceil>)"

text \<open>\<^verbatim>\<open>np.zeros((n, c))\<close>: the shape of the all-zero array, or numpy's error for \<open>n < 0\<close>.\<close>

definition np_zeros :: "int \<Rightarrow> nat \<Rightarrow> error + (nat \<times> nat)" where
  "np_zeros n c = (if n < 0 then Inl NegativeDimensions else Inr (nat n, c))"

text \<open>
  The constructor \<^verbatim>\<open>AudioArrayClip(array, fps)\<close> reads the first frame of the array to count
  the channels: on an array without frames that is an \<^verbatim>\<open>IndexError\<close>.
\<close>

definition audio_array_clip :: "nat \<times> nat \<Rightarrow> nat \<Rightarrow> error + audio_source" where
  "audio_array_clip shape fps =
     (if fst shape = 0 then Inl IndexError else Inr (AudioArrayClip shape fps))"

text \<open>\<^verbatim>\<open>AudioArrayClip(np.zeros((int(d * 44100), 2)), fps=44100)\<close>, lines 91 and 106.\<close>

definition silence_clip :: "real \<Rightarrow> error + audio_source" where
  "silence_clip d =
     (case np_zeros (py_int (d * 44100)) 2 of
        Inl e \<Rightarrow> Inl e
      | Inr shape \<Rightarrow> audio_array_clip shape 44100)"

definition place :: "real \<times> audio_file_clip \<Rightarrow> audio_segment" where
  "place ev = with_start (AudioFile (snd ev)) (fst ev)"

definition create_audio_with_gaps :: "real \<Rightarrow> (real \<times> audio_file_clip) list \<Rightarrow> error + audio" where
  "create_audio_with_gaps total_duration audio_clips =
     (if audio_clips = [] then
        (case silence_clip total_duration of
           Inl e \<Rightarrow> Inl e
         | Inr silence \<Rightarrow> Inr (Plain silence))
      else
        (let audio_clips_sorted = sort_key fst audio_clips;
             audio_segments = map place audio_clips_sorted;
             final_audio = CompositeAudioClip audio_segments
         in if audio_duration final_audio < total_duration then
              (let silence_duration = total_duration - audio_duration final_audio in
               if silence_duration > 0.01 then
                 (case silence_clip silence_duration of
                    Inl e \<Rightarrow> Inl e
                  | Inr silence \<Rightarrow>
                      Inr (CompositeAudioClip
                             (audio_segments @ [with_start silence (audio_duration final_audio)])))
               else Inr final_audio)
            else Inr final_audio))"

section \<open>The compiler: \<^verbatim>\<open>compile_final_video\<close>\<close>

text \<open>
  The effects of a call: the exception that leaves it (if any), the clip and path handed to
  \<^verbatim>\<open>write_videofile\<close> (if the call got that far), and the objects closed, in order.
  The encoder is a parameter: \<open>write_videofile clip path\<close> is \<open>True\<close> when the file is
  written and \<open>False\<close> when the encoder raises. Logging is left out here.
\<close>

datatype resource =
    ResultClip video
  | VideoHandle video_file_clip
  | AudioHandle audio_file_clip

record compile_outcome =
  raised :: "error option"
  encoder_input :: "(video \<times> string) option"
  closed :: "resource list"

text \<open>Lines 119 to 121.\<close>

definition attach_audio ::
  "real \<Rightarrow> (real \<times> audio_file_clip) list \<Rightarrow> video \<Rightarrow> error + video" where
  "attach_audio total_duration audio_clips video_result =
     (if audio_clips \<noteq> [] then
        (case create_audio_with_gaps total_duration audio_clips of
           Inl e \<Rightarrow> Inl e
         | Inr combined_audio \<Rightarrow> Inr (WithAudio video_result combined_audio))
      else Inr video_result)"

text \<open>
  Lines 123 to 126. \<^verbatim>\<open>max_duration\<close> is an \<^verbatim>\<open>int\<close> or \<^verbatim>\<open>None\<close>; \<^verbatim>\<open>if max_duration:\<close> is
  false for \<^verbatim>\<open>None\<close> and for \<^verbatim>\<open>0\<close>. Line 126 calls \<^verbatim>\<open>video_result.subclip(0, max_duration)\<close>.
  The module is written against the moviepy 2 interface (the import from the top-level
  package on line 9, \<^verbatim>\<open>with_start\<close> on line 98, \<^verbatim>\<open>with_audio\<close> on line 121), whose clips have
  no method \<^verbatim>\<open>subclip\<close> (it is \<^verbatim>\<open>subclipped\<close> there): the call raises
  \<^verbatim>\<open>AttributeError\<close> and nothing is cut.
\<close>

definition limit_duration :: "int option \<Rightarrow> video \<Rightarrow> error + video" where
  "limit_duration max_duration video_result =
     (case max_duration of
        None \<Rightarrow> Inr video_result
      | Some m \<Rightarrow>
          if m \<noteq> 0 then
            (if duration video_result > real_of_int m then Inl AttributeError
             else Inr video_result)
          else Inr video_result)"

definition compile_final_video ::
  "(video \<Rightarrow> string \<Rightarrow> bool) \<Rightarrow> real \<Rightarrow> (real \<times> video_file_clip) list \<Rightarrow>
   (real \<times> audio_file_clip) list \<Rightarrow> string \<Rightarrow> int option \<Rightarrow> compile_outcome" where
  "compile_final_video write_videofile total_duration video_clips audio_clips output_path
     max_duration =
     (case attach_audio total_duration audio_clips
             (create_video_with_gaps total_duration video_clips) of
        Inl e \<Rightarrow> \<lparr>raised = Some e, encoder_input = None, closed = []\<rparr>
      | Inr combined \<Rightarrow>
          (case limit_duration max_duration combined of
             Inl e \<Rightarrow> \<lparr>raised = Some e, encoder_input = None, closed = []\<rparr>
           | Inr video_result \<Rightarrow>
               if write_videofile video_result output_path then
                 \<lparr>raised = None,
                  encoder_input = Some (video_result, output_path),
                  closed = ResultClip video_result
                           # map (\<lambda>ev. VideoHandle (snd ev)) video_clips
                           @ map (\<lambda>ev. AudioHandle (snd ev)) audio_clips\<rparr>
               else
                 \<lparr>raised = Some WriteFailed,
                  encoder_input = Some (video_result, output_path),
                  closed = []\<rparr>))"

text \<open>The handles passed to a call.\<close>

definition handles ::
  "(real \<times> video_file_clip) list \<Rightarrow> (real \<times> audio_file_clip) list \<Rightarrow> resource list" where
  "handles video_clips audio_clips =
     map (\<lambda>ev. VideoHandle (snd ev)) video_clips @ map (\<lambda>ev. AudioHandle (snd ev)) audio_clips"

text \<open>Two encoders: one that always writes the file and one that always fails.\<close>

definition encoder_ok :: "video \<Rightarrow> string \<Rightarrow> bool" where
  "encoder_ok v path = True"

definition encoder_fails :: "video \<Rightarrow> string \<Rightarrow> bool" where
  "encoder_fails v path = False"

section \<open>Loading the fragments: \<^verbatim>\<open>process_video_clips\<close>\<close>

text \<open>
  The input is the dictionary read from JSON. A dictionary is an association list (looked up
  with \<^const>\<open>map_of\<close>); a number is a Python \<^verbatim>\<open>int\<close> (unbounded) or a \<^verbatim>\<open>float\<close>.
\<close>

datatype json =
    JNull
  | JBool bool
  | JInt int
  | JFloat real
  | JStr string
  | JArr "json list"
  | JObj "(string \<times> json) list"

text \<open>\<^verbatim>\<open>d.get(key, default)\<close>.\<close>

definition dict_get :: "(string \<times> json) list \<Rightarrow> string \<Rightarrow> json \<Rightarrow> json" where
  "dict_get d k dflt = (case map_of d k of None \<Rightarrow> dflt | Some v \<Rightarrow> v)"

text \<open>
  \<^verbatim>\<open>float(v)\<close>: a float is itself, an integer converts unless it is too large (an integer
  that rounds to a double beyond the largest one, that is of magnitude at least
  \<open>2 ^ 1024 - 2 ^ 970\<close>, raises \<^verbatim>\<open>OverflowError\<close>), a boolean is 1.0 or 0.0, a string is
  parsed (the parser of Python is the parameter \<open>parse\<close>, \<open>None\<close> for a string that is
  no number) and anything else is a type error.
\<close>

definition float_overflow :: int where
  "float_overflow = 2 ^ 1024 - 2 ^ 970"

fun py_float :: "(string \<Rightarrow> real option) \<Rightarrow> json \<Rightarrow> error + real" where
  "py_float parse (JFloat r) = Inr r"
| "py_float parse (JInt i) =
     (if \<bar>i\<bar> \<ge> float_overflow then Inl FloatOverflowError else Inr (real_of_int i))"
| "py_float parse (JBool b) = Inr (if b then 1 else 0)"
| "py_float parse (JStr s) = (case parse s of None \<Rightarrow> Inl FloatValueError | Some r \<Rightarrow> Inr r)"
| "py_float parse v = Inl FloatTypeError"

text \<open>
  \<^verbatim>\<open>for event in v\<close>: a list gives its elements, a string its characters, a dictionary its
  keys; nothing else is iterable.
\<close>

fun py_iter :: "json \<Rightarrow> error + json list" where
  "py_iter (JArr xs) = Inr xs"
| "py_iter (JStr s) = Inr (map (\<lambda>c. JStr [c]) s)"
| "py_iter (JObj d) = Inr (map (\<lambda>kv. JStr (fst kv)) d)"
| "py_iter v = Inl NotIterable"

text \<open>
  The collaborators of the loader. \<open>open_video\<close> and \<open>open_audio\<close> are the constructors
  \<^verbatim>\<open>VideoFileClip(path)\<close> and \<^verbatim>\<open>AudioFileClip(path)\<close>, \<open>None\<close> when they raise;
  \<open>path_exists\<close> is \<^verbatim>\<open>os.path.exists\<close>; \<open>float_of_str\<close> is the string case of
  \<^verbatim>\<open>float\<close>.

  Modelled from the spec: \<^verbatim>\<open>download_video_chunk\<close> (module \<^verbatim>\<open>mtslinker.downloader\<close>) is not
  part of the sources at hand. The spec gives its contract as
  \<^verbatim>\<open>fetch(url, destDir) -> path | null\<close>; it raises nothing.
\<close>

record env =
  download_video_chunk :: "json \<Rightarrow> string \<Rightarrow> string option"
  path_exists :: "string \<Rightarrow> bool"
  open_video :: "string \<Rightarrow> video_file_clip option"
  open_audio :: "string \<Rightarrow> audio_file_clip option"
  float_of_str :: "string \<Rightarrow> real option"

datatype log_entry =
    FailedToDownload json
  | FailedToLoadVideo string
  | FailedToLoadAudio string

record loaded =
  videos :: "(real \<times> video_file_clip) list"
  audios :: "(real \<times> audio_file_clip) list"
  logged :: "log_entry list"

text \<open>Lines 33 to 47: one fragment. Nothing raised here leaves the loop body.\<close>

definition load_fragment :: "env \<Rightarrow> string \<Rightarrow> json \<Rightarrow> real \<Rightarrow> loaded \<Rightarrow> loaded" where
  "load_fragment e directory url start_time st =
     (case download_video_chunk e url directory of
        None \<Rightarrow> st\<lparr>logged := logged st @ [FailedToDownload url]\<rparr>
      | Some downloaded_file_path \<Rightarrow>
          if downloaded_file_path = [] \<or> \<not> path_exists e downloaded_file_path then
            st\<lparr>logged := logged st @ [FailedToDownload url]\<rparr>
          else
            (case open_video e downloaded_file_path of
               Some video_clip \<Rightarrow> st\<lparr>videos := videos st @ [(start_time, video_clip)]\<rparr>
             | None \<Rightarrow>
                 (case open_audio e downloaded_file_path of
                    Some audio_clip \<Rightarrow>
                      st\<lparr>audios := audios st @ [(start_time, audio_clip)],
                         logged := logged st @ [FailedToLoadVideo downloaded_file_path]\<rparr>
                  | None \<Rightarrow>
                      st\<lparr>logged := logged st @ [FailedToLoadVideo downloaded_file_path,
                                                 FailedToLoadAudio downloaded_file_path]\<rparr>)))"

text \<open>Lines 27 to 47: the body of the loop for one event.\<close>

definition process_event :: "env \<Rightarrow> string \<Rightarrow> loaded \<Rightarrow> json \<Rightarrow> error + loaded" where
  "process_event e directory st event =
     (case event of
        JObj ev \<Rightarrow>
          (case dict_get ev ''data'' (JObj []) of
             JObj data \<Rightarrow>
               (case map_of data ''url'' of
                  None \<Rightarrow> Inr st
                | Some url \<Rightarrow>
                    (case py_float (float_of_str e) (dict_get ev ''relativeTime'' (JInt 0)) of
                       Inl err \<Rightarrow> Inl err
                     | Inr start_time \<Rightarrow> Inr (load_fragment e directory url start_time st)))
           | _ \<Rightarrow> Inr st)
      | _ \<Rightarrow> Inr st)"

fun events_loop :: "env \<Rightarrow> string \<Rightarrow> json list \<Rightarrow> loaded \<Rightarrow> error + loaded" where
  "events_loop e directory [] st = Inr st"
| "events_loop e directory (event # events) st =
     (case process_event e directory st event of
        Inl err \<Rightarrow> Inl err
      | Inr st' \<Rightarrow> events_loop e directory events st')"

definition process_video_clips ::
  "env \<Rightarrow> string \<Rightarrow> (string \<times> json) list \<Rightarrow> error + (real \<times> loaded)" where
  "process_video_clips e directory json_data =
     (case py_float (float_of_str e) (dict_get json_data ''duration'' (JInt 0)) of
        Inl err \<Rightarrow> Inl err
      | Inr total_duration \<Rightarrow>
          if total_duration = 0 then Inl DurationNotFound
          else
            (case py_iter (dict_get json_data ''eventLogs'' (JArr [])) of
               Inl err \<Rightarrow> Inl err
             | Inr events \<Rightarrow>
                 (case events_loop e directory events \<lparr>videos = [], audios = [], logged = []\<rparr> of
                    Inl err \<Rightarrow> Inl err
                  | Inr st \<Rightarrow> Inr (total_duration, st))))"

text \<open>An environment in which every download fails and no string is a number.\<close>

definition offline :: env where
  "offline = \<lparr>download_video_chunk = (\<lambda>url directory. None), path_exists = (\<lambda>p. False),
              open_video = (\<lambda>p. None), open_audio = (\<lambda>p. None), float_of_str = (\<lambda>s. None)\<rparr>"

text \<open>
  An environment in which every download succeeds (the path is the URL), the file
  \<^verbatim>\<open>good.mp4\<close> opens as video and the file \<^verbatim>\<open>voice.mp3\<close> opens as audio only; every other
  file opens neither as video nor as audio.
\<close>

definition good_clip :: video_file_clip where
  "good_clip = \<lparr>v_filename = ''good.mp4'', v_duration = 4, v_w = 640, v_h = 480,
                 v_audio = None\<rparr>"

definition voice_clip :: audio_file_clip where
  "voice_clip = \<lparr>a_filename = ''voice.mp3'', a_duration = 2\<rparr>"

definition flaky :: env where
  "flaky = \<lparr>download_video_chunk = (\<lambda>url directory. case url of JStr s \<Rightarrow> Some s | _ \<Rightarrow> None),
            path_exists = (\<lambda>p. True),
            open_video = (\<lambda>p. if p = ''good.mp4'' then Some good_clip else None),
            open_audio = (\<lambda>p. if p = ''voice.mp3'' then Some voice_clip else None),
            float_of_str = (\<lambda>s. None)\<rparr>"

text \<open>
  An input of 10 seconds with three events: a file that cannot be decoded at second 1,
  \<^verbatim>\<open>voice.mp3\<close> at second 2 and \<^verbatim>\<open>good.mp4\<close> at second 5.
\<close>

definition bad_event :: json where
  "bad_event = JObj [(''relativeTime'', JInt 1), (''data'', JObj [(''url'', JStr ''bad.bin'')])]"

definition voice_event :: json where
  "voice_event =
     JObj [(''relativeTime'', JInt 2), (''data'', JObj [(''url'', JStr ''voice.mp3'')])]"

definition good_event :: json where
  "good_event = JObj [(''relativeTime'', JInt 5), (''data'', JObj [(''url'', JStr ''good.mp4'')])]"

definition three_events :: "(string \<times> json) list" where
  "three_events =
     [(''duration'', JInt 10), (''eventLogs'', JArr [bad_event, voice_event, good_event])]"

text \<open>
  A video fragment with a soundtrack and an audio fragment, for the examples of the compiler.
\<close>

definition talk_sound :: audio_file_clip where
  "talk_sound = \<lparr>a_filename = ''talk.mp4'', a_duration = 4\<rparr>"

definition talk_clip :: video_file_clip where
  "talk_clip = \<lparr>v_filename = ''talk.mp4'', v_duration = 4, v_w = 640, v_h = 480,
                 v_audio = Some talk_sound\<rparr>"

definition music_clip :: audio_file_clip where
  "music_clip = \<lparr>a_filename = ''music.mp3'', a_duration = 10\<rparr>"

text \<open>The well-formedness of an event's time: \<^verbatim>\<open>relativeTime\<close> is absent or converts to a float.\<close>

definition relative_time_ok :: "(string \<Rightarrow> real option) \<Rightarrow> json \<Rightarrow> bool" where
  "relative_time_ok parse event =
     (case event of
        JObj ev \<Rightarrow>
          (case py_float parse (dict_get ev ''relativeTime'' (JInt 0)) of
             Inl err \<Rightarrow> False
           | Inr t \<Rightarrow> True)
      | _ \<Rightarrow> True)"

section \<open>The loader as the specification words it\<close>

text \<open>
  Section 4.1 of the specification. An event has a usable URL when it is a record whose
  payload \<^verbatim>\<open>data\<close> is a record with a \<^verbatim>\<open>url\<close>; other events are skipped. Its start time is its
  \<^verbatim>\<open>relativeTime\<close>, 0 when there is none.
\<close>

definition event_url :: "json \<Rightarrow> json option" where
  "event_url event =
     (case event of
        JObj ev \<Rightarrow>
          (case map_of ev ''data'' of
             Some (JObj data) \<Rightarrow> map_of data ''url''
           | _ \<Rightarrow> None)
      | _ \<Rightarrow> None)"

definition event_time :: "(string \<Rightarrow> real option) \<Rightarrow> json \<Rightarrow> real" where
  "event_time parse event =
     (case event of
        JObj ev \<Rightarrow>
          (case map_of ev ''relativeTime'' of
             None \<Rightarrow> 0
           | Some v \<Rightarrow> (case py_float parse v of Inl err \<Rightarrow> 0 | Inr t \<Rightarrow> t))
      | _ \<Rightarrow> 0)"

text \<open>
  The classification of a fragment: the file is fetched; it is interpreted as video first;
  if that fails it is interpreted as audio; if that fails too the fragment is unreadable. A
  fragment whose file could not be fetched is skipped.
\<close>

datatype fragment_kind =
    IsVideo video_file_clip
  | IsAudio string audio_file_clip
  | Unreadable string
  | NotFetched

definition classify :: "env \<Rightarrow> string \<Rightarrow> json \<Rightarrow> fragment_kind" where
  "classify e directory url =
     (case download_video_chunk e url directory of
        None \<Rightarrow> NotFetched
      | Some p \<Rightarrow>
          if p = [] \<or> \<not> path_exists e p then NotFetched
          else
            (case open_video e p of
               Some v \<Rightarrow> IsVideo v
             | None \<Rightarrow> (case open_audio e p of Some a \<Rightarrow> IsAudio p a | None \<Rightarrow> Unreadable p)))"

text \<open>
  What one event adds to the result, whatever happened to the events before it: at most one
  video or one audio fragment with the event's start time, and the messages logged: one for
  a file not fetched, one for a file read as audio after it failed as video, two for a file
  dropped as unreadable.
\<close>

definition event_videos :: "env \<Rightarrow> string \<Rightarrow> json \<Rightarrow> (real \<times> video_file_clip) list" where
  "event_videos e directory event =
     (case event_url event of
        None \<Rightarrow> []
      | Some url \<Rightarrow>
          (case classify e directory url of
             IsVideo v \<Rightarrow> [(event_time (float_of_str e) event, v)]
           | _ \<Rightarrow> []))"

definition event_audios :: "env \<Rightarrow> string \<Rightarrow> json \<Rightarrow> (real \<times> audio_file_clip) list" where
  "event_audios e directory event =
     (case event_url event of
        None \<Rightarrow> []
      | Some url \<Rightarrow>
          (case classify e directory url of
             IsAudio p a \<Rightarrow> [(event_time (float_of_str e) event, a)]
           | _ \<Rightarrow> []))"

definition event_log :: "env \<Rightarrow> string \<Rightarrow> json \<Rightarrow> log_entry list" where
  "event_log e directory event =
     (case event_url event of
        None \<Rightarrow> []
      | Some url \<Rightarrow>
          (case classify e directory url of
             IsVideo v \<Rightarrow> []
           | IsAudio p a \<Rightarrow> [FailedToLoadVideo p]
           | Unreadable p \<Rightarrow> [FailedToLoadVideo p, FailedToLoadAudio p]
           | NotFetched \<Rightarrow> [FailedToDownload url]))"

section \<open>The timeline walk as the specification words it\<close>

text \<open>
  Section 4.2 of the specification: walk the sorted list with \<open>current_time\<close>; if
  \<open>start_time > current_time\<close> and the gap exceeds 0.01, append a filler of exactly the gap
  and advance \<open>current_time\<close> by the gap; append the fragment and advance
  \<open>current_time\<close> by the fragment's own duration. \<open>spec_timeline\<close> is the list of
  segments of that walk from time \<open>t\<close>, \<open>spec_end\<close> the time it ends at.
\<close>

fun spec_timeline :: "nat \<times> nat \<Rightarrow> real \<Rightarrow> (real \<times> video_file_clip) list \<Rightarrow> segment list" where
  "spec_timeline sz t [] = []"
| "spec_timeline sz t (ev # rest) =
     (if fst ev > t \<and> fst ev - t > 0.01 then
        ColorClip sz (0, 0, 0) (fst ev - t) # Fragment (snd ev)
          # spec_timeline sz (t + (fst ev - t) + v_duration (snd ev)) rest
      else Fragment (snd ev) # spec_timeline sz (t + v_duration (snd ev)) rest)"

fun spec_end :: "real \<Rightarrow> (real \<times> video_file_clip) list \<Rightarrow> real" where
  "spec_end t [] = t"
| "spec_end t (ev # rest) =
     (if fst ev > t \<and> fst ev - t > 0.01 then
        spec_end (t + (fst ev - t) + v_duration (snd ev)) rest
      else spec_end (t + v_duration (snd ev)) rest)"

section \<open>Properties of the video timeline\<close>

lemma fill_gap_cases:
  "fill_gap sz s st =
     (if s - current_time st > 0.01
      then \<lparr>clips = clips st @ [ColorClip sz (0, 0, 0) (s - current_time st)],
            current_time = current_time st + (s - current_time st)\<rparr>
      else st)"
  by (auto simp: fill_gap_def Let_def)

lemma walk_step_cases:
  "walk_step sz st ev =
     (if fst ev - current_time st > 0.01
      then \<lparr>clips = clips st @ [ColorClip sz (0, 0, 0) (fst ev - current_time st),
                                Fragment (snd ev)],
            current_time = current_time st + (fst ev - current_time st) + v_duration (snd ev)\<rparr>
      else \<lparr>clips = clips st @ [Fragment (snd ev)],
            current_time = current_time st + v_duration (snd ev)\<rparr>)"
  by (simp add: walk_step_def fill_gap_cases Let_def)

lemma foldl_walk_step:
  "foldl (walk_step sz) st evs =
     \<lparr>clips = clips st @ spec_timeline sz (current_time st) evs,
      current_time = spec_end (current_time st) evs\<rparr>"
proof (induction evs arbitrary: st)
  case Nil
  show ?case by simp
next
  case (Cons ev evs)
  have "foldl (walk_step sz) st (ev # evs) = foldl (walk_step sz) (walk_step sz st ev) evs"
    by simp
  also have "\<dots> = \<lparr>clips = clips (walk_step sz st ev)
                            @ spec_timeline sz (current_time (walk_step sz st ev)) evs,
                    current_time = spec_end (current_time (walk_step sz st ev)) evs\<rparr>"
    by (rule Cons.IH)
  also have "\<dots> = \<lparr>clips = clips st @ spec_timeline sz (current_time st) (ev # evs),
                    current_time = spec_end (current_time st) (ev # evs)\<rparr>"
    by (simp add: walk_step_cases)
  finally show ?case .
qed

lemma walk_spec:
  "walk sz evs = \<lparr>clips = spec_timeline sz 0 evs, current_time = spec_end 0 evs\<rparr>"
  by (simp add: walk_def foldl_walk_step)

lemma spec_end_sum:
  "spec_end t evs = t + sum_list (map segment_duration (spec_timeline sz t evs))"
  by (induction evs arbitrary: t) simp_all

lemma fragments_of_spec_timeline:
  "filter (\<lambda>s. \<not> is_filler s) (spec_timeline sz t evs) = map (\<lambda>ev. Fragment (snd ev)) evs"
  by (induction evs arbitrary: t) simp_all

lemma trailing_filler_cases:
  "trailing_filler sz total_duration st =
     clips st @ (if total_duration - current_time st > 0.01
                 then [ColorClip sz (0, 0, 0) (total_duration - current_time st)] else [])"
  by (auto simp: trailing_filler_def Let_def)

lemma create_video_with_gaps_nonempty:
  assumes "video_clips \<noteq> []"
  shows "create_video_with_gaps total_duration video_clips =
           Concatenate
             (trailing_filler
                (v_w (snd (hd (sort_key fst video_clips))), v_h (snd (hd (sort_key fst video_clips))))
                total_duration
                (walk (v_w (snd (hd (sort_key fst video_clips))),
                       v_h (snd (hd (sort_key fst video_clips))))
                   (sort_key fst video_clips)))"
  using assms by (simp add: create_video_with_gaps_def Let_def)

text \<open>
  Claim C8. For every strictly positive \<open>total_duration\<close>, \<open>create_video_with_gaps\<close> on
  an empty fragment list returns exactly one black filler clip, of duration
  \<open>total_duration\<close> and of the fallback size 1920 by 1080.
\<close>

theorem empty_video_is_one_filler:
  assumes "0 < total_duration"
  shows "create_video_with_gaps total_duration []
           = Clip (ColorClip (1920, 1080) (0, 0, 0) total_duration)
         \<and> duration (create_video_with_gaps total_duration []) = total_duration"
  by (simp add: create_video_with_gaps_def)

theorem empty_video_is_one_filler_witness:
  "(0::real) < 5
   \<and> create_video_with_gaps 5 [] = Clip (ColorClip (1920, 1080) (0, 0, 0) 5)
   \<and> duration (create_video_with_gaps 5 []) = 5"
  using empty_video_is_one_filler [of 5] by simp

text \<open>
  Claim C3. For every non-empty list of timed video fragments, \<open>create_video_with_gaps\<close>
  sorts the list ascending by start time and builds exactly the segments of the walk of the
  specification from \<open>current_time = 0\<close>: a black filler of exactly
  \<open>start_time - current_time\<close> before a fragment when that gap exceeds 0.01 (none
  otherwise), then the fragment, \<open>current_time\<close> advancing by the fragment's own duration.
  The fragments of the result are the input fragments, unchanged and in sorted order: none is
  shifted or trimmed. After the walk one trailing filler covers a remainder above 0.01.
\<close>

theorem video_timeline_walk:
  assumes "video_clips \<noteq> []"
  shows "(let video_clips_sorted = sort_key fst video_clips;
              sz = (v_w (snd (hd video_clips_sorted)), v_h (snd (hd video_clips_sorted)));
              t = spec_end 0 video_clips_sorted
          in sorted (map fst video_clips_sorted)
             \<and> mset video_clips_sorted = mset video_clips
             \<and> walk sz video_clips_sorted
                 = \<lparr>clips = spec_timeline sz 0 video_clips_sorted, current_time = t\<rparr>
             \<and> create_video_with_gaps total_duration video_clips
                 = Concatenate
                     (spec_timeline sz 0 video_clips_sorted
                      @ (if total_duration - t > 0.01
                         then [ColorClip sz (0, 0, 0) (total_duration - t)] else []))
             \<and> filter (\<lambda>s. \<not> is_filler s) (spec_timeline sz 0 video_clips_sorted)
                 = map (\<lambda>ev. Fragment (snd ev)) video_clips_sorted)"
  unfolding Let_def
  by (simp add: create_video_with_gaps_nonempty [OF assms] trailing_filler_cases walk_spec
        fragments_of_spec_timeline)

text \<open>
  The scenario of the specification: one fragment of 4 seconds at 3.0 in a timeline of 10
  seconds.
\<close>

theorem video_timeline_walk_witness:
  "[(3, \<lparr>v_filename = ''v.mp4'', v_duration = 4, v_w = 640, v_h = 480,
        v_audio = None\<rparr>)] \<noteq> []
   \<and> create_video_with_gaps 10
        [(3, \<lparr>v_filename = ''v.mp4'', v_duration = 4, v_w = 640, v_h = 480,
        v_audio = None\<rparr>)]
      = Concatenate
          [ColorClip (640, 480) (0, 0, 0) 3,
           Fragment \<lparr>v_filename = ''v.mp4'', v_duration = 4, v_w = 640, v_h = 480,
        v_audio = None\<rparr>,
           ColorClip (640, 480) (0, 0, 0) 3]"
  using video_timeline_walk
          [of "[(3, \<lparr>v_filename = ''v.mp4'', v_duration = 4, v_w = 640, v_h = 480,
        v_audio = None\<rparr>)]" 10]
  by (simp add: Let_def)

text \<open>
  Claim C4. For every non-empty list of timed video fragments and every strictly positive
  \<open>total_duration\<close>, the duration of the timeline that \<open>create_video_with_gaps\<close> returns is
  at least \<open>total_duration - 0.01\<close>.
\<close>

theorem video_timeline_duration:
  assumes "video_clips \<noteq> []" and "0 < total_duration"
  shows "total_duration - 0.01 \<le> duration (create_video_with_gaps total_duration video_clips)"
proof -
  define sz where
    "sz = (v_w (snd (hd (sort_key fst video_clips))), v_h (snd (hd (sort_key fst video_clips))))"
  define evs where "evs = sort_key fst video_clips"
  have ct: "spec_end 0 evs = sum_list (map segment_duration (spec_timeline sz 0 evs))"
    using spec_end_sum [of 0 evs sz] by simp
  have res: "create_video_with_gaps total_duration video_clips
               = Concatenate
                   (spec_timeline sz 0 evs
                    @ (if total_duration - spec_end 0 evs > 0.01
                       then [ColorClip sz (0, 0, 0) (total_duration - spec_end 0 evs)] else []))"
    unfolding sz_def evs_def
    by (simp add: create_video_with_gaps_nonempty [OF assms(1)] trailing_filler_cases walk_spec)
  show ?thesis
    unfolding res using ct by simp
qed

text \<open>
  A fragment longer than the timeline: the result lasts 25 seconds, more than the 10 seconds
  asked for, since nothing is trimmed.
\<close>

theorem video_timeline_duration_witness:
  "[(0, \<lparr>v_filename = ''v.mp4'', v_duration = 25, v_w = 640, v_h = 480,
        v_audio = None\<rparr>)] \<noteq> []
   \<and> (0::real) < 10
   \<and> 10 - 0.01
       \<le> duration (create_video_with_gaps 10
            [(0, \<lparr>v_filename = ''v.mp4'', v_duration = 25, v_w = 640, v_h = 480,
        v_audio = None\<rparr>)])
   \<and> duration (create_video_with_gaps 10
         [(0, \<lparr>v_filename = ''v.mp4'', v_duration = 25, v_w = 640, v_h = 480,
        v_audio = None\<rparr>)]) = 25"
  using video_timeline_duration
          [of "[(0, \<lparr>v_filename = ''v.mp4'', v_duration = 25, v_w = 640, v_h = 480,
        v_audio = None\<rparr>)]" 10]
  by (simp add: create_video_with_gaps_nonempty trailing_filler_cases walk_spec)

text \<open>
  Two overlapping fragments given out of order: the one starting at 2 is appended after the
  one starting at 0 and plays from 5 to 10; it is neither moved to its nominal start nor cut.
  A gap of 0.005 seconds gets no filler.
\<close>

lemma overlapping_fragments_are_chained:
  "create_video_with_gaps 10
     [(2, \<lparr>v_filename = ''b.mp4'', v_duration = 5, v_w = 640, v_h = 480,
        v_audio = None\<rparr>),
      (0, \<lparr>v_filename = ''a.mp4'', v_duration = 5, v_w = 640, v_h = 480,
        v_audio = None\<rparr>)]
   = Concatenate
       [Fragment \<lparr>v_filename = ''a.mp4'', v_duration = 5, v_w = 640, v_h = 480,
        v_audio = None\<rparr>,
        Fragment \<lparr>v_filename = ''b.mp4'', v_duration = 5, v_w = 640, v_h = 480,
        v_audio = None\<rparr>]"
  by (simp add: create_video_with_gaps_nonempty trailing_filler_cases walk_spec)

lemma small_gap_gets_no_filler:
  "create_video_with_gaps 1
     [(0.005, \<lparr>v_filename = ''a.mp4'', v_duration = 1, v_w = 640, v_h = 480,
        v_audio = None\<rparr>)]
   = Concatenate [Fragment \<lparr>v_filename = ''a.mp4'', v_duration = 1, v_w = 640, v_h = 480,
        v_audio = None\<rparr>]"
  by (simp add: create_video_with_gaps_nonempty trailing_filler_cases walk_spec)

section \<open>Properties of the audio track\<close>

lemma silence_clip_frames:
  assumes "1 \<le> d * 44100"
  shows "silence_clip d = Inr (AudioArrayClip (nat \<lfloor>d * 44100\<rfloor>, 2) 44100)"
proof -
  have "1 \<le> \<lfloor>d * 44100\<rfloor>" using assms by linarith
  moreover have "py_int (d * 44100) = \<lfloor>d * 44100\<rfloor>"
    using assms by (simp add: py_int_def)
  ultimately show ?thesis
    by (simp add: silence_clip_def np_zeros_def audio_array_clip_def)
qed

















section \<open>Properties of the compiler\<close>

lemma create_audio_total:
  assumes "audio_clips \<noteq> []"
  shows "\<exists>track. create_audio_with_gaps total_duration audio_clips = Inr track"
proof -
  define frags where "frags = map place (sort_key fst audio_clips)"
  show ?thesis
  proof (cases "total_duration - composite_duration frags > 0.01")
    case True
    then have "1 \<le> (total_duration - composite_duration frags) * 44100" by simp
    from silence_clip_frames [OF this] True assms show ?thesis
      by (simp add: create_audio_with_gaps_def Let_def frags_def [symmetric])
  next
    case False
    with assms show ?thesis
      by (auto simp: create_audio_with_gaps_def Let_def frags_def [symmetric])
  qed
qed

lemma attach_audio_total:
  "\<exists>combined. attach_audio total_duration audio_clips v = Inr combined"
proof (cases "audio_clips = []")
  case True
  then show ?thesis by (simp add: attach_audio_def)
next
  case False
  from create_audio_total [OF False, of total_duration]
  obtain track where "create_audio_with_gaps total_duration audio_clips = Inr track" ..
  then show ?thesis using False by (simp add: attach_audio_def)
qed

text \<open>The duration limit either leaves the clip as it is or raises.\<close>

lemma limit_duration_cases:
  "limit_duration max_duration v =
     (if \<exists>m. max_duration = Some m \<and> m \<noteq> 0 \<and> real_of_int m < duration v
      then Inl AttributeError else Inr v)"
  by (auto simp: limit_duration_def split: option.splits)

lemma encoder_input_compile:
  assumes "attach_audio total_duration audio_clips
             (create_video_with_gaps total_duration video_clips) = Inr combined"
  shows "encoder_input (compile_final_video w total_duration video_clips audio_clips out md)
           = (if \<exists>m. md = Some m \<and> m \<noteq> 0 \<and> real_of_int m < duration combined
              then None else Some (combined, out))"
  using assms by (simp add: compile_final_video_def limit_duration_cases)

text \<open>What a call closes: everything after a successful write, nothing otherwise.\<close>

lemma closed_on_success:
  assumes "raised (compile_final_video w total_duration video_clips audio_clips out md) = None"
  shows "set (handles video_clips audio_clips)
           \<subseteq> set (closed (compile_final_video w total_duration video_clips audio_clips out md))"
  using assms
  by (auto simp: compile_final_video_def handles_def split: sum.splits if_splits)

lemma closed_on_failure:
  assumes "raised (compile_final_video w total_duration video_clips audio_clips out md) \<noteq> None"
  shows "closed (compile_final_video w total_duration video_clips audio_clips out md) = []"
  using assms
  by (auto simp: compile_final_video_def split: sum.splits if_splits)

text \<open>
  Claim C1 asks that every fragment handle is closed before the call returns, also when
  encoding fails. The code closes the handles after \<^verbatim>\<open>write_videofile\<close> inside the
  \<^verbatim>\<open>try\<close> block only, and the \<^verbatim>\<open>except\<close> branch logs and re-raises: with an encoder
  that fails, a call with one video and one audio handle raises and has closed nothing.
\<close>

theorem handles_leak_when_encoding_fails:
  "raised (compile_final_video encoder_fails 10
             [(3, \<lparr>v_filename = ''v.mp4'', v_duration = 4, v_w = 640, v_h = 480,
                   v_audio = None\<rparr>)]
             [(0, \<lparr>a_filename = ''a.mp3'', a_duration = 10\<rparr>)] ''out.mp4'' None)
     = Some WriteFailed
   \<and> closed (compile_final_video encoder_fails 10
               [(3, \<lparr>v_filename = ''v.mp4'', v_duration = 4, v_w = 640, v_h = 480,
                     v_audio = None\<rparr>)]
               [(0, \<lparr>a_filename = ''a.mp3'', a_duration = 10\<rparr>)] ''out.mp4'' None)
     = []
   \<and> handles [(3, \<lparr>v_filename = ''v.mp4'', v_duration = 4, v_w = 640, v_h = 480,
                    v_audio = None\<rparr>)]
              [(0, \<lparr>a_filename = ''a.mp3'', a_duration = 10\<rparr>)]
     = [VideoHandle \<lparr>v_filename = ''v.mp4'', v_duration = 4, v_w = 640, v_h = 480,
                     v_audio = None\<rparr>,
        AudioHandle \<lparr>a_filename = ''a.mp3'', a_duration = 10\<rparr>]"
proof -
  obtain combined where
    "attach_audio 10 [(0, \<lparr>a_filename = ''a.mp3'', a_duration = 10\<rparr>)]
       (create_video_with_gaps 10
          [(3, \<lparr>v_filename = ''v.mp4'', v_duration = 4, v_w = 640, v_h = 480,
                v_audio = None\<rparr>)])
     = Inr combined"
    using attach_audio_total by blast
  then show ?thesis
    by (simp add: compile_final_video_def limit_duration_def encoder_fails_def handles_def)
qed

text \<open>
  Claim C5 asks that a composed result longer than \<open>max_duration\<close> is cut to the interval
  from 0 to \<open>max_duration\<close> and then handed to the encoder. The code tests the duration
  and logs the cut, but the method it calls on line 126 does not exist on the clip: an empty
  timeline of 10 seconds with a limit of 8 raises \<^verbatim>\<open>AttributeError\<close>, the encoder is never
  called and nothing is written.
\<close>

theorem duration_limit_raises:
  "duration (create_video_with_gaps 10 []) = 10
   \<and> compile_final_video encoder_ok 10 [] [] ''out.mp4'' (Some 8)
       = \<lparr>raised = Some AttributeError, encoder_input = None, closed = []\<rparr>"
  by (simp add: compile_final_video_def attach_audio_def create_video_with_gaps_def
        limit_duration_def)

text \<open>
  The same holds whenever the limit applies; without a limit, with the limit 0 or with a
  result within the limit the encoder gets the composed result as it is.
\<close>

lemma limit_exceeded_raises:
  assumes "m \<noteq> 0" and "real_of_int m < duration v"
  shows "limit_duration (Some m) v = Inl AttributeError"
  using assms by (simp add: limit_duration_def)

lemma limit_not_exceeded:
  assumes "max_duration = None \<or> max_duration = Some 0
           \<or> (\<exists>m. max_duration = Some m \<and> duration v \<le> real_of_int m)"
  shows "limit_duration max_duration v = Inr v"
  using assms by (auto simp: limit_duration_def)

text \<open>
  The soundtracks of a chain are the soundtracks of its segments, in order; the fillers add
  none, so the timeline plays exactly the soundtracks of the fragments.
\<close>

lemma chain_audio_sources:
  "map seg_source (chain_audio t segs)
     = concat (map (\<lambda>s. case segment_audio s of None \<Rightarrow> [] | Some a \<Rightarrow> [a]) segs)"
  by (induction segs arbitrary: t) (auto simp: with_start_def split: option.splits)

lemma spec_timeline_sources:
  "concat (map (\<lambda>s. case segment_audio s of None \<Rightarrow> [] | Some a \<Rightarrow> [a]) (spec_timeline sz t evs))
     = concat (map (\<lambda>ev. case v_audio (snd ev) of None \<Rightarrow> [] | Some a \<Rightarrow> [AudioFile a]) evs)"
  by (induction evs arbitrary: t) (auto split: option.splits)

lemma audio_sources_concatenate:
  "audio_sources (audio_of (Concatenate segs)) = map seg_source (chain_audio 0 segs)"
  by simp

lemma timeline_sources:
  "audio_sources (audio_of (create_video_with_gaps total_duration video_clips))
     = concat (map (\<lambda>ev. case v_audio (snd ev) of None \<Rightarrow> [] | Some a \<Rightarrow> [AudioFile a])
                 (sort_key fst video_clips))"
proof (cases "video_clips = []")
  case True
  then show ?thesis by (simp add: create_video_with_gaps_def)
next
  case False
  show ?thesis
    unfolding create_video_with_gaps_nonempty [OF False] audio_sources_concatenate
      chain_audio_sources trailing_filler_cases walk_spec
    by (simp add: spec_timeline_sources)
qed

text \<open>
  Claim C10. With an empty list of audio fragments \<open>compile_final_video\<close> attaches nothing
  to the video timeline: the composed result is the timeline itself, and what it plays is
  exactly the soundtracks the video fragments carry, in timeline order (no silent track among
  them). Unless the duration limit raises, that timeline is what the encoder gets. With at
  least one audio fragment the track built by \<open>create_audio_with_gaps\<close> is attached and
  replaces what the timeline played.
\<close>

theorem no_audio_track_without_audio_fragments:
  "(let timeline = create_video_with_gaps total_duration video_clips in
      attach_audio total_duration [] timeline = Inr timeline
      \<and> audio_sources (audio_of timeline)
          = concat (map (\<lambda>ev. case v_audio (snd ev) of None \<Rightarrow> [] | Some a \<Rightarrow> [AudioFile a])
                      (sort_key fst video_clips))
      \<and> encoder_input (compile_final_video w total_duration video_clips [] out max_duration)
          = (if \<exists>m. max_duration = Some m \<and> m \<noteq> 0 \<and> real_of_int m < duration timeline
             then None else Some (timeline, out))
      \<and> (audio_clips \<noteq> [] \<longrightarrow>
           (\<exists>track. create_audio_with_gaps total_duration audio_clips = Inr track
              \<and> attach_audio total_duration audio_clips timeline = Inr (WithAudio timeline track)
              \<and> audio_of (WithAudio timeline track) = Some track
              \<and> encoder_input
                   (compile_final_video w total_duration video_clips audio_clips out max_duration)
                 = (if \<exists>m. max_duration = Some m \<and> m \<noteq> 0 \<and> real_of_int m < duration timeline
                    then None else Some (WithAudio timeline track, out)))))"
proof -
  define timeline where "timeline = create_video_with_gaps total_duration video_clips"
  have a: "attach_audio total_duration [] timeline = Inr timeline"
    by (simp add: attach_audio_def)
  have b: "audio_sources (audio_of timeline)
          = concat (map (\<lambda>ev. case v_audio (snd ev) of None \<Rightarrow> [] | Some a \<Rightarrow> [AudioFile a])
                      (sort_key fst video_clips))"
    unfolding timeline_def by (rule timeline_sources)
  have c: "encoder_input (compile_final_video w total_duration video_clips [] out max_duration)
          = (if \<exists>m. max_duration = Some m \<and> m \<noteq> 0 \<and> real_of_int m < duration timeline
             then None else Some (timeline, out))"
    using encoder_input_compile [OF a [unfolded timeline_def], of w out max_duration]
    by (simp add: timeline_def)
  have d: "\<exists>track. create_audio_with_gaps total_duration audio_clips = Inr track
              \<and> attach_audio total_duration audio_clips timeline = Inr (WithAudio timeline track)
              \<and> audio_of (WithAudio timeline track) = Some track
              \<and> encoder_input
                   (compile_final_video w total_duration video_clips audio_clips out max_duration)
                 = (if \<exists>m. max_duration = Some m \<and> m \<noteq> 0 \<and> real_of_int m < duration timeline
                    then None else Some (WithAudio timeline track, out))"
    if ne: "audio_clips \<noteq> []"
  proof -
    from create_audio_total [OF ne, of total_duration]
    obtain track where t: "create_audio_with_gaps total_duration audio_clips = Inr track" ..
    have at: "attach_audio total_duration audio_clips timeline = Inr (WithAudio timeline track)"
      using ne t by (simp add: attach_audio_def)
    have "encoder_input
            (compile_final_video w total_duration video_clips audio_clips out max_duration)
          = (if \<exists>m. max_duration = Some m \<and> m \<noteq> 0 \<and> real_of_int m < duration timeline
             then None else Some (WithAudio timeline track, out))"
      using encoder_input_compile [OF at [unfolded timeline_def], of w out max_duration]
      by (simp add: timeline_def)
    with t at show ?thesis by auto
  qed
  from a b c d show ?thesis
    unfolding Let_def timeline_def [symmetric] by blast
qed

text \<open>
  A video fragment with a soundtrack, at second 3 of a timeline of 10 seconds. Without
  audio fragments the encoder gets the timeline, which plays the fragment's own soundtrack
  from second 3; with one audio fragment the encoder gets the timeline with the composite of
  that fragment attached, which is then what it plays.
\<close>

theorem no_audio_track_without_audio_fragments_witness:
  "[(0, music_clip)] \<noteq> []
   \<and> encoder_input (compile_final_video encoder_ok 10 [(3, talk_clip)] [] ''out.mp4'' None)
       = Some (Concatenate [ColorClip (640, 480) (0, 0, 0) 3, Fragment talk_clip,
                            ColorClip (640, 480) (0, 0, 0) 3], ''out.mp4'')
   \<and> audio_of (Concatenate [ColorClip (640, 480) (0, 0, 0) 3, Fragment talk_clip,
                            ColorClip (640, 480) (0, 0, 0) 3])
       = Some (CompositeAudioClip [\<lparr>seg_source = AudioFile talk_sound, seg_start = 3\<rparr>])
   \<and> encoder_input
       (compile_final_video encoder_ok 10 [(3, talk_clip)] [(0, music_clip)] ''out.mp4'' None)
       = Some (WithAudio
                 (Concatenate [ColorClip (640, 480) (0, 0, 0) 3, Fragment talk_clip,
                               ColorClip (640, 480) (0, 0, 0) 3])
                 (CompositeAudioClip [\<lparr>seg_source = AudioFile music_clip, seg_start = 0\<rparr>]),
               ''out.mp4'')
   \<and> audio_of
       (WithAudio
          (Concatenate [ColorClip (640, 480) (0, 0, 0) 3, Fragment talk_clip,
                        ColorClip (640, 480) (0, 0, 0) 3])
          (CompositeAudioClip [\<lparr>seg_source = AudioFile music_clip, seg_start = 0\<rparr>]))
       = Some (CompositeAudioClip [\<lparr>seg_source = AudioFile music_clip, seg_start = 0\<rparr>])"
proof -
  have tl: "create_video_with_gaps 10 [(3, talk_clip)]
              = Concatenate [ColorClip (640, 480) (0, 0, 0) 3, Fragment talk_clip,
                             ColorClip (640, 480) (0, 0, 0) 3]"
    by (simp add: create_video_with_gaps_nonempty trailing_filler_cases walk_spec talk_clip_def)
  have au: "create_audio_with_gaps 10 [(0, music_clip)]
              = Inr (CompositeAudioClip [\<lparr>seg_source = AudioFile music_clip, seg_start = 0\<rparr>])"
    by (simp add: create_audio_with_gaps_def Let_def place_def with_start_def seg_end_def
          music_clip_def)
  have snd: "audio_of (Concatenate [ColorClip (640, 480) (0, 0, 0) 3, Fragment talk_clip,
                            ColorClip (640, 480) (0, 0, 0) 3])
       = Some (CompositeAudioClip [\<lparr>seg_source = AudioFile talk_sound, seg_start = 3\<rparr>])"
    by (simp add: talk_clip_def with_start_def)
  have enc1: "encoder_input
                (compile_final_video encoder_ok 10 [(3, talk_clip)] [] ''out.mp4'' None)
       = Some (Concatenate [ColorClip (640, 480) (0, 0, 0) 3, Fragment talk_clip,
                            ColorClip (640, 480) (0, 0, 0) 3], ''out.mp4'')"
    by (simp add: compile_final_video_def attach_audio_def limit_duration_def encoder_ok_def tl)
  have enc2: "encoder_input
       (compile_final_video encoder_ok 10 [(3, talk_clip)] [(0, music_clip)] ''out.mp4'' None)
       = Some (WithAudio
                 (Concatenate [ColorClip (640, 480) (0, 0, 0) 3, Fragment talk_clip,
                               ColorClip (640, 480) (0, 0, 0) 3])
                 (CompositeAudioClip [\<lparr>seg_source = AudioFile music_clip, seg_start = 0\<rparr>]),
               ''out.mp4'')"
    by (simp add: compile_final_video_def attach_audio_def limit_duration_def encoder_ok_def
          tl au)
  have snd2: "audio_of
       (WithAudio
          (Concatenate [ColorClip (640, 480) (0, 0, 0) 3, Fragment talk_clip,
                        ColorClip (640, 480) (0, 0, 0) 3])
          (CompositeAudioClip [\<lparr>seg_source = AudioFile music_clip, seg_start = 0\<rparr>]))
       = Some (CompositeAudioClip [\<lparr>seg_source = AudioFile music_clip, seg_start = 0\<rparr>])"
    by simp
  from no_audio_track_without_audio_fragments
         [of 10 "[(3, talk_clip)]" encoder_ok "''out.mp4''" None "[(0, music_clip)]"]
    enc1 enc2 snd snd2
  show ?thesis by (simp del: audio_of.simps)
qed

section \<open>Properties of the loader\<close>

lemma float_overflow_large: "1000000 < float_overflow"
proof -
  have "(2::int) ^ 971 \<le> 2 ^ 1024" by (rule power_increasing) simp_all
  moreover have "(2::int) ^ 971 = 2 * 2 ^ 970" by simp
  moreover have "(2::int) ^ 20 \<le> 2 ^ 970" by (rule power_increasing) simp_all
  moreover have "(2::int) ^ 20 = 1048576" by simp
  ultimately show ?thesis unfolding float_overflow_def by linarith
qed

lemma py_float_small:
  "\<bar>i\<bar> \<le> 1000000 \<Longrightarrow> py_float parse (JInt i) = Inr (real_of_int i)"
  using float_overflow_large by simp

text \<open>An integer of 401 digits is too large for a float.\<close>

lemma py_float_overflows: "py_float parse (JInt (10 ^ 400)) = Inl FloatOverflowError"
proof -
  have "(2::int) ^ 1024 \<le> 2 ^ 1200" by (rule power_increasing) simp_all
  also have "(2::int) ^ 1200 = (2 ^ 3) ^ 400" by (simp only: power_mult [symmetric]) simp
  also have "\<dots> \<le> 10 ^ 400" by (rule power_mono) simp_all
  finally have big: "(2::int) ^ 1024 \<le> 10 ^ 400" .
  have "(0::int) \<le> 2 ^ 970" by simp
  with big have "float_overflow \<le> 10 ^ 400"
    unfolding float_overflow_def by linarith
  then show ?thesis by simp
qed

lemma py_float_errors:
  "py_float parse v = Inl err \<Longrightarrow>
     err = FloatValueError \<or> err = FloatTypeError \<or> err = FloatOverflowError"
  by (cases v) (auto split: option.splits if_splits)

lemma py_iter_errors: "py_iter v = Inl err \<Longrightarrow> err = NotIterable"
  by (cases v) auto

lemma process_event_errors:
  "process_event e directory st event = Inl err \<Longrightarrow>
     err = FloatValueError \<or> err = FloatTypeError \<or> err = FloatOverflowError"
  by (auto simp: process_event_def split: json.splits option.splits sum.splits
        dest: py_float_errors)

lemma events_loop_errors:
  "events_loop e directory events st = Inl err \<Longrightarrow>
     err = FloatValueError \<or> err = FloatTypeError \<or> err = FloatOverflowError"
  by (induction events arbitrary: st) (auto split: sum.splits dest: process_event_errors)

text \<open>
  Whether an event raises depends on the event and on the conversion of strings only, not on
  what the download or the decoders do, nor on what was loaded before.
\<close>

lemma process_event_env:
  assumes "float_of_str e = float_of_str e'"
  shows "(\<exists>st'. process_event e directory st event = Inr st') \<Longrightarrow>
         (\<exists>st'. process_event e' directory' st2 event = Inr st')"
    and "process_event e directory st event = Inl err \<Longrightarrow>
         process_event e' directory' st2 event = Inl err"
  using assms by (auto simp: process_event_def split: json.splits option.splits sum.splits)

lemma events_loop_env:
  assumes "float_of_str e = float_of_str e'"
  shows "(events_loop e directory events st = Inl err)
           = (events_loop e' directory' events st2 = Inl err)"
proof (induction events arbitrary: st st2)
  case Nil
  show ?case by simp
next
  case (Cons event events)
  show ?case
  proof (cases "process_event e directory st event")
    case (Inl x)
    from process_event_env(2) [OF assms Inl]
    have "process_event e' directory' st2 event = Inl x" .
    with Inl show ?thesis by simp
  next
    case (Inr st')
    then have "\<exists>s. process_event e directory st event = Inr s" by blast
    from process_event_env(1) [OF assms this]
    obtain s2 where "process_event e' directory' st2 event = Inr s2" by blast
    with Inr Cons.IH [of st' s2] show ?thesis by simp
  qed
qed

lemma process_video_clips_env:
  assumes "float_of_str e = float_of_str e'"
  shows "(process_video_clips e directory json_data = Inl err)
           = (process_video_clips e' directory' json_data = Inl err)"
proof -
  have loop: "(events_loop e directory events \<lparr>videos = [], audios = [], logged = []\<rparr> = Inl x)
           = (events_loop e' directory' events \<lparr>videos = [], audios = [], logged = []\<rparr> = Inl x)"
    for events x
    by (rule events_loop_env [OF assms])
  show ?thesis
  proof (cases "py_float (float_of_str e') (dict_get json_data ''duration'' (JInt 0))")
    case (Inl x)
    then show ?thesis by (simp add: process_video_clips_def assms)
  next
    case (Inr t)
    note t = this
    show ?thesis
    proof (cases "py_iter (dict_get json_data ''eventLogs'' (JArr []))")
      case (Inl x)
      with t show ?thesis by (simp add: process_video_clips_def assms)
    next
      case (Inr events)
      note ev = this
      show ?thesis
      proof (cases "events_loop e directory events \<lparr>videos = [], audios = [], logged = []\<rparr>")
        case (Inl x)
        with loop [of events x]
        have "events_loop e' directory' events \<lparr>videos = [], audios = [], logged = []\<rparr> = Inl x"
          by simp
        with Inl t ev show ?thesis by (simp add: process_video_clips_def assms)
      next
        case (Inr st)
        note st = this
        have "events_loop e' directory' events \<lparr>videos = [], audios = [], logged = []\<rparr> \<noteq> Inl x"
          for x
          using loop [of events x] st by simp
        then obtain st' where
          "events_loop e' directory' events \<lparr>videos = [], audios = [], logged = []\<rparr> = Inr st'"
          by (cases "events_loop e' directory' events \<lparr>videos = [], audios = [], logged = []\<rparr>")
            auto
        with st t ev show ?thesis by (simp add: process_video_clips_def assms)
      qed
    qed
  qed
qed

text \<open>
  The loop against the specification: one fragment is appended as video, or as audio after
  the video decoder failed, or dropped with the failure logged, and the loop goes on with
  the next event whatever happened to this one.
\<close>

lemma load_fragment_classified:
  "load_fragment e directory url start_time st =
     (case classify e directory url of
        IsVideo v \<Rightarrow> st\<lparr>videos := videos st @ [(start_time, v)]\<rparr>
      | IsAudio p a \<Rightarrow>
          st\<lparr>audios := audios st @ [(start_time, a)], logged := logged st @ [FailedToLoadVideo p]\<rparr>
      | Unreadable p \<Rightarrow> st\<lparr>logged := logged st @ [FailedToLoadVideo p, FailedToLoadAudio p]\<rparr>
      | NotFetched \<Rightarrow> st\<lparr>logged := logged st @ [FailedToDownload url]\<rparr>)"
  by (simp add: load_fragment_def classify_def split: option.splits)

lemma event_time_converted:
  assumes "py_float parse (dict_get ev ''relativeTime'' (JInt 0)) = Inr t"
  shows "event_time parse (JObj ev) = t"
  using assms float_overflow_large
  by (auto simp: event_time_def dict_get_def split: option.splits)

lemma process_event_skipped:
  assumes "event_url event = None"
  shows "process_event e directory st event = Inr st"
  using assms
  by (auto simp: process_event_def event_url_def dict_get_def split: json.splits option.splits)

lemma process_event_loaded:
  assumes "event_url event = Some url" and "relative_time_ok (float_of_str e) event"
  shows "process_event e directory st event
           = Inr (load_fragment e directory url (event_time (float_of_str e) event) st)"
proof -
  from assms(1) obtain ev data where
    ev: "event = JObj ev" and data: "map_of ev ''data'' = Some (JObj data)"
    and url: "map_of data ''url'' = Some url"
    by (auto simp: event_url_def split: json.splits option.splits)
  from assms(2) ev obtain t where
    t: "py_float (float_of_str e) (dict_get ev ''relativeTime'' (JInt 0)) = Inr t"
    by (auto simp: relative_time_ok_def split: sum.splits)
  from event_time_converted [OF t] have "event_time (float_of_str e) event = t"
    by (simp add: ev)
  with ev data url t show ?thesis
    by (simp add: process_event_def dict_get_def)
qed

lemma process_event_spec:
  assumes "event_url event = None \<or> relative_time_ok (float_of_str e) event"
  shows "process_event e directory st event
           = Inr \<lparr>videos = videos st @ event_videos e directory event,
                  audios = audios st @ event_audios e directory event,
                  logged = logged st @ event_log e directory event\<rparr>"
proof (cases "event_url event")
  case None
  then show ?thesis
    by (simp add: process_event_skipped event_videos_def event_audios_def event_log_def)
next
  case (Some url)
  with assms have "relative_time_ok (float_of_str e) event" by simp
  from process_event_loaded [OF Some this] Some show ?thesis
    by (cases "classify e directory url")
      (simp_all add: load_fragment_classified event_videos_def event_audios_def event_log_def)
qed

lemma events_loop_spec:
  assumes "\<forall>event \<in> set events. event_url event = None \<or> relative_time_ok (float_of_str e) event"
  shows "events_loop e directory events st
           = Inr \<lparr>videos = videos st @ concat (map (event_videos e directory) events),
                  audios = audios st @ concat (map (event_audios e directory) events),
                  logged = logged st @ concat (map (event_log e directory) events)\<rparr>"
  using assms
proof (induction events arbitrary: st)
  case Nil
  show ?case by simp
next
  case (Cons event events)
  then have "event_url event = None \<or> relative_time_ok (float_of_str e) event" by simp
  from process_event_spec [OF this] Cons show ?case by simp
qed

text \<open>
  Claim C2, as the code has it. \<open>process_video_clips\<close> raises the missing-duration error if
  and only if the input has no \<^verbatim>\<open>duration\<close> field or the value of the field converts to
  the float 0. When the call returns, the duration returned is the converted value of the
  field, which is present and not 0: no default takes its place.
\<close>

theorem duration_not_found_iff:
  "(process_video_clips e directory json_data = Inl DurationNotFound
      \<longleftrightarrow> (map_of json_data ''duration'' = None
           \<or> (\<exists>v. map_of json_data ''duration'' = Some v \<and> py_float (float_of_str e) v = Inr 0)))
   \<and> (\<forall>t st. process_video_clips e directory json_data = Inr (t, st) \<longrightarrow>
         t \<noteq> 0
         \<and> (\<exists>v. map_of json_data ''duration'' = Some v \<and> py_float (float_of_str e) v = Inr t))"
proof -
  have no_dnf: "py_float (float_of_str e) v \<noteq> Inl DurationNotFound" for v
    using py_float_errors [of "float_of_str e" v DurationNotFound] by auto
  have loop: "events_loop e directory events s \<noteq> Inl DurationNotFound" for events s
    using events_loop_errors [of e directory events s DurationNotFound] by auto
  have iter: "py_iter v \<noteq> Inl DurationNotFound" for v
    using py_iter_errors [of v DurationNotFound] by auto
  have zero: "py_float (float_of_str e) (JInt 0) = Inr 0"
    by (simp add: py_float_small del: py_float.simps)
  show ?thesis
  proof (cases "map_of json_data ''duration''")
    case None
    then show ?thesis
      by (simp add: process_video_clips_def dict_get_def zero del: py_float.simps)
  next
    case (Some v)
    show ?thesis
    proof (cases "py_float (float_of_str e) v")
      case (Inl err)
      with Some no_dnf [of v] show ?thesis
        by (simp add: process_video_clips_def dict_get_def)
    next
      case (Inr t)
      with Some loop iter show ?thesis
        by (auto simp: process_video_clips_def dict_get_def split: sum.splits)
    qed
  qed
qed

theorem duration_not_found_iff_witness:
  "process_video_clips offline ''dir'' [(''duration'', JInt 10)]
     = Inr (10, \<lparr>videos = [], audios = [], logged = []\<rparr>)
   \<and> map_of [(''duration'', JInt 10)] ''duration'' = Some (JInt 10)
   \<and> py_float (float_of_str offline) (JInt 10) = Inr 10
   \<and> process_video_clips offline ''dir'' [] = Inl DurationNotFound"
  using duration_not_found_iff [of offline "''dir''" "[(''duration'', JInt 10)]"]
    duration_not_found_iff [of offline "''dir''" "[]"]
  by (simp add: process_video_clips_def dict_get_def py_float_small del: py_float.simps)

text \<open>
  The claim as stated fails: the input has a \<^verbatim>\<open>duration\<close> field, of value 0, and the
  missing-duration error is raised.
\<close>

theorem zero_duration_counts_as_missing:
  "map_of [(''duration'', JInt 0)] ''duration'' = Some (JInt 0)
   \<and> process_video_clips offline ''dir'' [(''duration'', JInt 0)] = Inl DurationNotFound"
  by (simp add: process_video_clips_def dict_get_def py_float_small del: py_float.simps)

text \<open>
  Claim C9, as the code has it. A failure to download or to decode a fragment never aborts
  \<open>process_video_clips\<close>. Whether the call raises, and what, does not depend on the
  downloader and the decoders (first conjunct). On an input whose duration converts to a
  non-zero float, whose event log is iterable and whose events with a URL have a
  \<^verbatim>\<open>relativeTime\<close> that is absent or converts to a float, the call returns, and every event
  adds what the specification says whatever happened to the events before it: a file that
  opens as video is a video fragment, a file that fails as video and opens as audio is an
  audio fragment, a file that fails both is dropped, and each failure is logged (third
  conjunct). What the caller can see from this phase is the missing-duration error, the
  three errors of a \<^verbatim>\<open>duration\<close> or \<^verbatim>\<open>relativeTime\<close> that does not convert to a float, and the
  error of an event log that is not iterable (second conjunct).
\<close>

theorem load_failures_do_not_abort:
  "(float_of_str e' = float_of_str e \<longrightarrow>
      (process_video_clips e' directory' json_data = Inl err)
        = (process_video_clips e directory json_data = Inl err))
   \<and> (process_video_clips e directory json_data = Inl err \<longrightarrow>
        err \<in> {DurationNotFound, FloatValueError, FloatTypeError, FloatOverflowError,
               NotIterable})
   \<and> (\<forall>t events.
        py_float (float_of_str e) (dict_get json_data ''duration'' (JInt 0)) = Inr t \<and> t \<noteq> 0
        \<and> py_iter (dict_get json_data ''eventLogs'' (JArr [])) = Inr events
        \<and> (\<forall>event \<in> set events.
              event_url event = None \<or> relative_time_ok (float_of_str e) event)
        \<longrightarrow> process_video_clips e directory json_data
              = Inr (t, \<lparr>videos = concat (map (event_videos e directory) events),
                         audios = concat (map (event_audios e directory) events),
                         logged = concat (map (event_log e directory) events)\<rparr>))"
proof -
  have a: "float_of_str e' = float_of_str e \<longrightarrow>
      (process_video_clips e' directory' json_data = Inl err)
        = (process_video_clips e directory json_data = Inl err)"
    using process_video_clips_env [of e' e directory' json_data err directory] by blast
  have b: "process_video_clips e directory json_data = Inl err \<longrightarrow>
        err \<in> {DurationNotFound, FloatValueError, FloatTypeError, FloatOverflowError,
               NotIterable}"
    by (auto simp: process_video_clips_def split: sum.splits if_splits
          dest: py_float_errors py_iter_errors events_loop_errors)
  have c: "process_video_clips e directory json_data
              = Inr (t, \<lparr>videos = concat (map (event_videos e directory) events),
                         audios = concat (map (event_audios e directory) events),
                         logged = concat (map (event_log e directory) events)\<rparr>)"
    if "py_float (float_of_str e) (dict_get json_data ''duration'' (JInt 0)) = Inr t" "t \<noteq> 0"
      "py_iter (dict_get json_data ''eventLogs'' (JArr [])) = Inr events"
      "\<forall>event \<in> set events. event_url event = None \<or> relative_time_ok (float_of_str e) event"
    for t events
    using that(1-3)
      events_loop_spec [OF that(4), of directory "\<lparr>videos = [], audios = [], logged = []\<rparr>"]
    by (simp add: process_video_clips_def)
  from a b c show ?thesis by blast
qed

text \<open>
  A file that opens neither as video nor as audio, then one that opens as audio only, then
  one that opens as video: the first is dropped with two messages logged, the second is
  loaded as audio with the video failure logged, the third is loaded as video. A duration
  that is no number is one of the errors the caller sees.
\<close>

theorem load_failures_do_not_abort_witness:
  "float_of_str offline = float_of_str flaky
   \<and> py_float (float_of_str flaky) (dict_get three_events ''duration'' (JInt 0)) = Inr 10
   \<and> (10::real) \<noteq> 0
   \<and> py_iter (dict_get three_events ''eventLogs'' (JArr []))
       = Inr [bad_event, voice_event, good_event]
   \<and> relative_time_ok (float_of_str flaky) bad_event
   \<and> relative_time_ok (float_of_str flaky) voice_event
   \<and> relative_time_ok (float_of_str flaky) good_event
   \<and> process_video_clips flaky ''dir'' three_events
       = Inr (10, \<lparr>videos = [(5, good_clip)], audios = [(2, voice_clip)],
                   logged = [FailedToLoadVideo ''bad.bin'', FailedToLoadAudio ''bad.bin'',
                             FailedToLoadVideo ''voice.mp3'']\<rparr>)
   \<and> process_video_clips offline ''dir'' [(''duration'', JStr ''ten'')] = Inl FloatValueError
   \<and> FloatValueError \<in> {DurationNotFound, FloatValueError, FloatTypeError, FloatOverflowError,
                        NotIterable}"
  using load_failures_do_not_abort [of offline flaky "''dir''" three_events FloatValueError "''dir''"]
    load_failures_do_not_abort
      [of offline offline "''dir''" "[(''duration'', JStr ''ten'')]" FloatValueError "''dir''"]
  by (simp add: process_video_clips_def dict_get_def process_event_def load_fragment_def
        relative_time_ok_def three_events_def bad_event_def voice_event_def good_event_def
        flaky_def offline_def py_float_small del: py_float.simps(2))

text \<open>
  The claim as stated fails: an event whose \<^verbatim>\<open>relativeTime\<close> is \<^verbatim>\<open>null\<close> makes
  \<^verbatim>\<open>float\<close> raise a type error at line 31, which leaves \<open>process_video_clips\<close> although
  the duration is there.
\<close>

theorem null_relative_time_aborts:
  "process_video_clips offline ''dir''
     [(''duration'', JInt 10),
      (''eventLogs'',
       JArr [JObj [(''relativeTime'', JNull), (''data'', JObj [(''url'', JStr ''u'')])]])]
   = Inl FloatTypeError"
  by (simp add: process_video_clips_def dict_get_def process_event_def offline_def
        py_float_small del: py_float.simps(2))


end
